theory Spec2Isabelle
  imports Complex_Main "HOL-Library.Word" "HOL-Library.Signed_Division"
begin

section \<open>Failures\<close>

text \<open>
  The library reports failures by throwing.  \<open>InvalidArgument\<close> stands for
  \<^verbatim>\<open>std::invalid_argument\<close> and \<open>RuntimeError\<close> for \<^verbatim>\<open>std::runtime_error\<close>.
  An exception that leaves a function declared \<^verbatim>\<open>noexcept\<close> ends the program through
  \<^verbatim>\<open>std::terminate\<close>; that outcome is \<open>Terminate\<close>.  The integer remainder by zero in
  \<^verbatim>\<open>has_valid_root\<close> has no defined behaviour in C++ (a trap on the usual targets); the
  model gives it the outcome \<open>Undefined\<close> instead of a value.
\<close>

datatype error = InvalidArgument | RuntimeError | Terminate | Undefined

definition noexcept :: "error + 'a \<Rightarrow> error + 'a" where
  "noexcept r = (case r of Inl e \<Rightarrow> Inl Terminate | Inr v \<Rightarrow> Inr v)"


section \<open>Scalars\<close>

text \<open>
  \<^verbatim>\<open>using scalar = double\<close>.  A scalar is a finite number, one of the two infinities, or
  not-a-number.  Finite arithmetic is exact: rounding, overflow and underflow of the
  binary format are left out, and so is the sign of zero (a zero divisor counts as
  \<open>+0\<close>).  The special values follow IEEE 754: a comparison with \<open>NaN\<close> is false,
  \<open>x / 0\<close> is an infinity for \<open>x \<noteq> 0\<close> and \<open>NaN\<close> for \<open>x = 0\<close>.
\<close>

datatype scalar = Fin real | PInf | MInf | NaN

fun s_neg :: "scalar \<Rightarrow> scalar" where
  "s_neg (Fin x) = Fin (- x)"
| "s_neg PInf = MInf"
| "s_neg MInf = PInf"
| "s_neg NaN = NaN"

fun s_add :: "scalar \<Rightarrow> scalar \<Rightarrow> scalar" where
  "s_add NaN _ = NaN"
| "s_add _ NaN = NaN"
| "s_add (Fin x) (Fin y) = Fin (x + y)"
| "s_add (Fin x) PInf = PInf"
| "s_add (Fin x) MInf = MInf"
| "s_add PInf (Fin y) = PInf"
| "s_add MInf (Fin y) = MInf"
| "s_add PInf PInf = PInf"
| "s_add MInf MInf = MInf"
| "s_add PInf MInf = NaN"
| "s_add MInf PInf = NaN"

definition s_sub :: "scalar \<Rightarrow> scalar \<Rightarrow> scalar" where
  "s_sub a b = s_add a (s_neg b)"

fun s_mul :: "scalar \<Rightarrow> scalar \<Rightarrow> scalar" where
  "s_mul NaN _ = NaN"
| "s_mul _ NaN = NaN"
| "s_mul (Fin x) (Fin y) = Fin (x * y)"
| "s_mul (Fin x) PInf = (if x = 0 then NaN else if 0 < x then PInf else MInf)"
| "s_mul (Fin x) MInf = (if x = 0 then NaN else if 0 < x then MInf else PInf)"
| "s_mul PInf (Fin y) = (if y = 0 then NaN else if 0 < y then PInf else MInf)"
| "s_mul MInf (Fin y) = (if y = 0 then NaN else if 0 < y then MInf else PInf)"
| "s_mul PInf PInf = PInf"
| "s_mul MInf MInf = PInf"
| "s_mul PInf MInf = MInf"
| "s_mul MInf PInf = MInf"

fun s_div :: "scalar \<Rightarrow> scalar \<Rightarrow> scalar" where
  "s_div NaN _ = NaN"
| "s_div _ NaN = NaN"
| "s_div (Fin x) (Fin y) =
     (if y = 0 then (if x = 0 then NaN else if 0 < x then PInf else MInf)
      else Fin (x / y))"
| "s_div (Fin x) PInf = Fin 0"
| "s_div (Fin x) MInf = Fin 0"
| "s_div PInf (Fin y) = (if 0 \<le> y then PInf else MInf)"
| "s_div MInf (Fin y) = (if 0 \<le> y then MInf else PInf)"
| "s_div PInf PInf = NaN"
| "s_div MInf MInf = NaN"
| "s_div PInf MInf = NaN"
| "s_div MInf PInf = NaN"

fun s_eq :: "scalar \<Rightarrow> scalar \<Rightarrow> bool" where
  "s_eq (Fin x) (Fin y) = (x = y)"
| "s_eq PInf PInf = True"
| "s_eq MInf MInf = True"
| "s_eq _ _ = False"

definition s_ne :: "scalar \<Rightarrow> scalar \<Rightarrow> bool" where
  "s_ne a b = (\<not> s_eq a b)"

fun s_lt :: "scalar \<Rightarrow> scalar \<Rightarrow> bool" where
  "s_lt (Fin x) (Fin y) = (x < y)"
| "s_lt (Fin x) PInf = True"
| "s_lt MInf (Fin y) = True"
| "s_lt MInf PInf = True"
| "s_lt _ _ = False"

definition s_le :: "scalar \<Rightarrow> scalar \<Rightarrow> bool" where
  "s_le a b = (s_lt a b \<or> s_eq a b)"

definition s_gt :: "scalar \<Rightarrow> scalar \<Rightarrow> bool" where
  "s_gt a b = s_lt b a"

definition s_ge :: "scalar \<Rightarrow> scalar \<Rightarrow> bool" where
  "s_ge a b = s_le b a"

text \<open>\<^verbatim>\<open>std::fabs\<close> and \<^verbatim>\<open>std::sqrt\<close>.\<close>

fun s_fabs :: "scalar \<Rightarrow> scalar" where
  "s_fabs (Fin x) = Fin \<bar>x\<bar>"
| "s_fabs PInf = PInf"
| "s_fabs MInf = PInf"
| "s_fabs NaN = NaN"

fun s_sqrt :: "scalar \<Rightarrow> scalar" where
  "s_sqrt (Fin x) = (if x < 0 then NaN else Fin (sqrt x))"
| "s_sqrt PInf = PInf"
| "s_sqrt MInf = NaN"
| "s_sqrt NaN = NaN"

text \<open>
  \<^verbatim>\<open>std::pow(x, n)\<close> with an \<^verbatim>\<open>int\<close> exponent: the exponent is converted to
  \<^verbatim>\<open>double\<close> and keeps its integral value.  \<open>pow(x, 0)\<close> is 1 for every \<open>x\<close>, also
  for \<open>NaN\<close>; a zero base with a negative exponent is a pole.
\<close>

fun s_powi :: "scalar \<Rightarrow> int \<Rightarrow> scalar" where
  "s_powi (Fin x) n =
     (if n = 0 then Fin 1
      else if x = 0 \<and> n < 0 then PInf
      else Fin (x powi n))"
| "s_powi PInf n = (if n = 0 then Fin 1 else if 0 < n then PInf else Fin 0)"
| "s_powi MInf n =
     (if n = 0 then Fin 1
      else if n < 0 then Fin 0
      else if even n then PInf else MInf)"
| "s_powi NaN n = (if n = 0 then Fin 1 else NaN)"

text \<open>The circular and hyperbolic functions of \<^verbatim>\<open><cmath>\<close>.\<close>

fun s_sin :: "scalar \<Rightarrow> scalar" where
  "s_sin (Fin x) = Fin (sin x)"
| "s_sin _ = NaN"

fun s_cos :: "scalar \<Rightarrow> scalar" where
  "s_cos (Fin x) = Fin (cos x)"
| "s_cos _ = NaN"

fun s_tan :: "scalar \<Rightarrow> scalar" where
  "s_tan (Fin x) = Fin (tan x)"
| "s_tan _ = NaN"

fun s_sinh :: "scalar \<Rightarrow> scalar" where
  "s_sinh (Fin x) = Fin (sinh x)"
| "s_sinh PInf = PInf"
| "s_sinh MInf = MInf"
| "s_sinh NaN = NaN"

fun s_cosh :: "scalar \<Rightarrow> scalar" where
  "s_cosh (Fin x) = Fin (cosh x)"
| "s_cosh PInf = PInf"
| "s_cosh MInf = PInf"
| "s_cosh NaN = NaN"

fun s_tanh :: "scalar \<Rightarrow> scalar" where
  "s_tanh (Fin x) = Fin (tanh x)"
| "s_tanh PInf = Fin 1"
| "s_tanh MInf = Fin (- 1)"
| "s_tanh NaN = NaN"


section \<open>Dimension vectors: \<^verbatim>\<open>unit_base\<close>\<close>

text \<open>
  The seven exponents are signed bit-fields.  \<^verbatim>\<open>bitwidth::base_size\<close> is 4, because
  \<^verbatim>\<open>sizeof(uint32_t)\<close> is not 8, so the widths are: metre 4, second 4, kilogram 3,
  ampere 3, kelvin 3, mole 2, candela 2.  A field is read as a two's-complement number
  (\<open>sint\<close>); storing an \<^verbatim>\<open>int\<close> into a field keeps its low bits (\<open>word_of_int\<close>).
\<close>

record unit_base =
  metre :: "4 word"
  second :: "4 word"
  kilogram :: "3 word"
  ampere :: "3 word"
  kelvin :: "3 word"
  mole :: "2 word"
  candela :: "2 word"

text \<open>The constructor from seven \<^verbatim>\<open>int\<close> powers.\<close>

definition mk_unit_base :: "int \<Rightarrow> int \<Rightarrow> int \<Rightarrow> int \<Rightarrow> int \<Rightarrow> int \<Rightarrow> int \<Rightarrow> unit_base" where
  "mk_unit_base metres seconds kilograms amperes kelvins moles candelas =
     \<lparr> metre = word_of_int metres, second = word_of_int seconds,
       kilogram = word_of_int kilograms, ampere = word_of_int amperes,
       kelvin = word_of_int kelvins, mole = word_of_int moles,
       candela = word_of_int candelas \<rparr>"

text \<open>\<^verbatim>\<open>operator*\<close> and \<^verbatim>\<open>operator/\<close>: the fields are promoted to \<^verbatim>\<open>int\<close>, added or
  subtracted, and stored again.\<close>

definition unit_base_mul :: "unit_base \<Rightarrow> unit_base \<Rightarrow> unit_base" where
  "unit_base_mul a b =
     mk_unit_base (sint (metre a) + sint (metre b))
                  (sint (second a) + sint (second b))
                  (sint (kilogram a) + sint (kilogram b))
                  (sint (ampere a) + sint (ampere b))
                  (sint (kelvin a) + sint (kelvin b))
                  (sint (mole a) + sint (mole b))
                  (sint (candela a) + sint (candela b))"

definition unit_base_div :: "unit_base \<Rightarrow> unit_base \<Rightarrow> unit_base" where
  "unit_base_div a b =
     mk_unit_base (sint (metre a) - sint (metre b))
                  (sint (second a) - sint (second b))
                  (sint (kilogram a) - sint (kilogram b))
                  (sint (ampere a) - sint (ampere b))
                  (sint (kelvin a) - sint (kelvin b))
                  (sint (mole a) - sint (mole b))
                  (sint (candela a) - sint (candela b))"

text \<open>\<^verbatim>\<open>operator==\<close> and \<^verbatim>\<open>operator!=\<close>, field by field in the order of the source.\<close>

definition unit_base_eq :: "unit_base \<Rightarrow> unit_base \<Rightarrow> bool" where
  "unit_base_eq a b =
     (metre a = metre b \<and> second a = second b \<and> kilogram a = kilogram b \<and>
      ampere a = ampere b \<and> candela a = candela b \<and> kelvin a = kelvin b \<and>
      mole a = mole b)"

definition unit_base_ne :: "unit_base \<Rightarrow> unit_base \<Rightarrow> bool" where
  "unit_base_ne a b =
     (metre a \<noteq> metre b \<or> second a \<noteq> second b \<or> kilogram a \<noteq> kilogram b \<or>
      ampere a \<noteq> ampere b \<or> candela a \<noteq> candela b \<or> kelvin a \<noteq> kelvin b \<or>
      mole a \<noteq> mole b)"

definition unit_base_inv :: "unit_base \<Rightarrow> unit_base" where
  "unit_base_inv a =
     mk_unit_base (- sint (metre a)) (- sint (second a)) (- sint (kilogram a))
                  (- sint (ampere a)) (- sint (kelvin a)) (- sint (mole a))
                  (- sint (candela a))"

text \<open>
  \<^verbatim>\<open>pow\<close>: each exponent times the \<^verbatim>\<open>int\<close> power, stored into the field.  The low bits
  of the product do not depend on whether the \<^verbatim>\<open>int\<close> multiplication itself wrapped,
  so the power is taken as a mathematical integer.
\<close>

definition unit_base_pow :: "unit_base \<Rightarrow> int \<Rightarrow> unit_base" where
  "unit_base_pow a pwr =
     mk_unit_base (sint (metre a) * pwr) (sint (second a) * pwr)
                  (sint (kilogram a) * pwr) (sint (ampere a) * pwr)
                  (sint (kelvin a) * pwr) (sint (mole a) * pwr)
                  (sint (candela a) * pwr)"

text \<open>
  \<^verbatim>\<open>has_valid_root\<close>: every exponent has remainder 0.  The C++ remainder \<^verbatim>\<open>%\<close> truncates
  towards zero (\<open>smod\<close>); with a zero power the first remainder is already undefined.
\<close>

definition has_valid_root :: "unit_base \<Rightarrow> int \<Rightarrow> error + bool" where
  "has_valid_root a pwr =
     (if pwr = 0 then Inl Undefined
      else Inr (sint (metre a) smod pwr = 0 \<and>
                sint (second a) smod pwr = 0 \<and>
                sint (kilogram a) smod pwr = 0 \<and>
                sint (ampere a) smod pwr = 0 \<and>
                sint (candela a) smod pwr = 0 \<and>
                sint (kelvin a) smod pwr = 0 \<and>
                sint (mole a) smod pwr = 0))"

text \<open>\<^verbatim>\<open>root\<close>: the truncating quotient \<^verbatim>\<open>/\<close> (\<open>sdiv\<close>) of each exponent, or
  \<^verbatim>\<open>std::invalid_argument\<close>.\<close>

definition unit_base_root :: "unit_base \<Rightarrow> int \<Rightarrow> error + unit_base" where
  "unit_base_root a pwr =
     (case has_valid_root a pwr of
        Inl e \<Rightarrow> Inl e
      | Inr valid \<Rightarrow>
          if valid then
            Inr (mk_unit_base (sint (metre a) sdiv pwr) (sint (second a) sdiv pwr)
                              (sint (kilogram a) sdiv pwr) (sint (ampere a) sdiv pwr)
                              (sint (kelvin a) sdiv pwr) (sint (mole a) sdiv pwr)
                              (sint (candela a) sdiv pwr))
          else Inl InvalidArgument)"


section \<open>Scale prefixes: \<^verbatim>\<open>unit_prefix\<close>\<close>

record unit_prefix =
  multiplier :: scalar
  symbol :: char

text \<open>The constructor from a multiplier and a symbol throws when \<^verbatim>\<open>mult <= 0\<close>.\<close>

definition mk_unit_prefix :: "scalar \<Rightarrow> char \<Rightarrow> error + unit_prefix" where
  "mk_unit_prefix mult symb =
     (if s_le mult (Fin 0) then Inl InvalidArgument
      else Inr \<lparr> multiplier = mult, symbol = symb \<rparr>)"

text \<open>The default prefix: multiplier \<open>1.0\<close>, symbol \<^verbatim>\<open>'\0'\<close>.\<close>

definition default_prefix :: unit_prefix where
  "default_prefix = \<lparr> multiplier = Fin 1, symbol = CHR 0x00 \<rparr>"

text \<open>
  The operations below build their result with the throwing constructor and are declared
  \<^verbatim>\<open>noexcept\<close>.
\<close>

definition unit_prefix_mul :: "unit_prefix \<Rightarrow> unit_prefix \<Rightarrow> error + unit_prefix" where
  "unit_prefix_mul p q =
     noexcept (mk_unit_prefix (s_mul (multiplier p) (multiplier q)) (symbol p))"

definition unit_prefix_div :: "unit_prefix \<Rightarrow> unit_prefix \<Rightarrow> error + unit_prefix" where
  "unit_prefix_div p q =
     noexcept (mk_unit_prefix (s_div (multiplier p) (multiplier q)) (symbol p))"

definition unit_prefix_eq :: "unit_prefix \<Rightarrow> unit_prefix \<Rightarrow> bool" where
  "unit_prefix_eq p q = (s_eq (multiplier p) (multiplier q) \<and> symbol p = symbol q)"

definition unit_prefix_ne :: "unit_prefix \<Rightarrow> unit_prefix \<Rightarrow> bool" where
  "unit_prefix_ne p q = (s_ne (multiplier p) (multiplier q) \<or> symbol p \<noteq> symbol q)"

definition unit_prefix_inv :: "unit_prefix \<Rightarrow> error + unit_prefix" where
  "unit_prefix_inv p =
     noexcept (mk_unit_prefix (s_div (Fin 1) (multiplier p)) (symbol p))"

definition unit_prefix_pow :: "unit_prefix \<Rightarrow> int \<Rightarrow> error + unit_prefix" where
  "unit_prefix_pow p pwr =
     noexcept (mk_unit_prefix (s_powi (multiplier p) pwr) (symbol p))"

text \<open>\<^verbatim>\<open>root\<close> passes the power itself to \<^verbatim>\<open>std::pow\<close>, as \<^verbatim>\<open>pow\<close> does.\<close>

definition unit_prefix_root :: "unit_prefix \<Rightarrow> int \<Rightarrow> error + unit_prefix" where
  "unit_prefix_root p pwr =
     noexcept (mk_unit_prefix (s_powi (multiplier p) pwr) (symbol p))"

text \<open>\<^verbatim>\<open>sqrt\<close> is \<^verbatim>\<open>std::pow(multiplier_, 1. / 2.)\<close>, which is the square root for every
  multiplier that is not negative.\<close>

definition unit_prefix_sqrt :: "unit_prefix \<Rightarrow> error + unit_prefix" where
  "unit_prefix_sqrt p =
     noexcept (mk_unit_prefix
        (case multiplier p of MInf \<Rightarrow> PInf | m \<Rightarrow> s_sqrt m) (symbol p))"


section \<open>Units\<close>

text \<open>The struct \<^verbatim>\<open>unit\<close>: a dimension vector and a prefix.\<close>

record unit_t =
  base :: unit_base
  prefix :: unit_prefix

definition unit_mul :: "unit_t \<Rightarrow> unit_t \<Rightarrow> error + unit_t" where
  "unit_mul u v =
     noexcept (case unit_prefix_mul (prefix u) (prefix v) of
        Inl e \<Rightarrow> Inl e
      | Inr p \<Rightarrow> Inr \<lparr> base = unit_base_mul (base u) (base v), prefix = p \<rparr>)"

definition unit_div :: "unit_t \<Rightarrow> unit_t \<Rightarrow> error + unit_t" where
  "unit_div u v =
     noexcept (case unit_prefix_div (prefix u) (prefix v) of
        Inl e \<Rightarrow> Inl e
      | Inr p \<Rightarrow> Inr \<lparr> base = unit_base_div (base u) (base v), prefix = p \<rparr>)"

text \<open>\<^verbatim>\<open>unit::operator==\<close>.\<close>

definition unit_eq :: "unit_t \<Rightarrow> unit_t \<Rightarrow> bool" where
  "unit_eq u v =
     (if unit_base_ne (base u) (base v) then False
      else unit_prefix_eq (prefix u) (prefix v))"

text \<open>\<^verbatim>\<open>unit::operator!=\<close>: with equal bases it returns \<^verbatim>\<open>prefix_ == other.prefix_\<close>.\<close>

definition unit_ne :: "unit_t \<Rightarrow> unit_t \<Rightarrow> bool" where
  "unit_ne u v =
     (if unit_base_eq (base u) (base v) then unit_prefix_eq (prefix u) (prefix v)
      else True)"

text \<open>\<^verbatim>\<open>convertion_factor\<close> and \<^verbatim>\<open>convert\<close>, both \<^verbatim>\<open>noexcept\<close> and without a throw.\<close>

definition convertion_factor :: "unit_t \<Rightarrow> unit_t \<Rightarrow> scalar" where
  "convertion_factor u other =
     (if unit_base_eq (base u) (base other)
      then s_div (multiplier (prefix u)) (multiplier (prefix other))
      else NaN)"

definition convert :: "unit_t \<Rightarrow> scalar \<Rightarrow> unit_t \<Rightarrow> scalar" where
  "convert u val other = s_mul val (convertion_factor u other)"

text \<open>The unit constants of namespace \<^verbatim>\<open>SI\<close> in \<^verbatim>\<open>types.hpp\<close> that are used below (\<^verbatim>\<open>m\<close>, \<^verbatim>\<open>s\<close>, \<^verbatim>\<open>km\<close>, \<^verbatim>\<open>mm\<close> carry the namespace in their name).  \<^verbatim>\<open>rad\<close> is a
  default-constructed \<^verbatim>\<open>unit\<close>, like \<^verbatim>\<open>unitless\<close>.\<close>

definition unitless :: unit_t where
  "unitless = \<lparr> base = mk_unit_base 0 0 0 0 0 0 0, prefix = default_prefix \<rparr>"

definition rad :: unit_t where
  "rad = \<lparr> base = mk_unit_base 0 0 0 0 0 0 0, prefix = default_prefix \<rparr>"

definition SI_m :: unit_t where
  "SI_m = \<lparr> base = mk_unit_base 1 0 0 0 0 0 0, prefix = default_prefix \<rparr>"

definition SI_s :: unit_t where
  "SI_s = \<lparr> base = mk_unit_base 0 1 0 0 0 0 0, prefix = default_prefix \<rparr>"

definition SI_km :: unit_t where
  "SI_km = \<lparr> base = mk_unit_base 1 0 0 0 0 0 0,
          prefix = \<lparr> multiplier = Fin 1000, symbol = CHR ''k'' \<rparr> \<rparr>"

definition SI_mm :: unit_t where
  "SI_mm = \<lparr> base = mk_unit_base 1 0 0 0 0 0 0,
          prefix = \<lparr> multiplier = Fin (1 / 1000), symbol = CHR ''m'' \<rparr> \<rparr>"


section \<open>Plain quantities: \<^verbatim>\<open>measurement\<close>\<close>

record measurement =
  m_value :: scalar
  m_units :: unit_t

text \<open>\<^verbatim>\<open>value_as\<close>: the value expressed in another unit.\<close>

definition value_as :: "measurement \<Rightarrow> unit_t \<Rightarrow> scalar" where
  "value_as x desired_units =
     (if unit_eq (m_units x) desired_units then m_value x
      else convert (m_units x) (m_value x) desired_units)"

text \<open>\<^verbatim>\<open>operator+\<close> and \<^verbatim>\<open>operator-\<close> between two measurements.\<close>

definition measurement_add :: "measurement \<Rightarrow> measurement \<Rightarrow> error + measurement" where
  "measurement_add x other =
     (if unit_base_ne (base (m_units x)) (base (m_units other)) then Inl InvalidArgument
      else Inr \<lparr> m_value = s_add (m_value x) (value_as other (m_units x)),
                 m_units = m_units x \<rparr>)"

definition measurement_sub :: "measurement \<Rightarrow> measurement \<Rightarrow> error + measurement" where
  "measurement_sub x other =
     (if unit_base_ne (base (m_units x)) (base (m_units other)) then Inl InvalidArgument
      else Inr \<lparr> m_value = s_sub (m_value x) (value_as other (m_units x)),
                 m_units = m_units x \<rparr>)"

text \<open>\<^verbatim>\<open>operator+=\<close> and \<^verbatim>\<open>operator-=\<close>; the result is the new state of the left operand.\<close>

definition measurement_add_assign :: "measurement \<Rightarrow> measurement \<Rightarrow> error + measurement" where
  "measurement_add_assign x other =
     (if unit_base_ne (base (m_units x)) (base (m_units other)) then Inl InvalidArgument
      else if unit_ne (m_units x) unitless
        then Inr (x \<lparr> m_value := s_add (m_value x) (value_as other (m_units x)) \<rparr>)
        else Inr \<lparr> m_value = s_add (m_value x) (m_value other), m_units = m_units other \<rparr>)"

definition measurement_sub_assign :: "measurement \<Rightarrow> measurement \<Rightarrow> error + measurement" where
  "measurement_sub_assign x other =
     (if unit_base_ne (base (m_units x)) (base (m_units other)) then Inl InvalidArgument
      else if unit_ne (m_units x) unitless
        then Inr (x \<lparr> m_value := s_sub (m_value x) (value_as other (m_units x)) \<rparr>)
        else Inr \<lparr> m_value = s_sub (m_value x) (m_value other), m_units = m_units other \<rparr>)"

text \<open>Division by a scalar.  \<^verbatim>\<open>operator/=\<close> tests the scalar; \<^verbatim>\<open>operator/\<close> tests
  \<^verbatim>\<open>this->value_\<close>.\<close>

definition measurement_div_assign_scalar :: "measurement \<Rightarrow> scalar \<Rightarrow> error + measurement" where
  "measurement_div_assign_scalar x scal =
     (if s_eq scal (Fin 0) then Inl RuntimeError
      else Inr (x \<lparr> m_value := s_div (m_value x) scal \<rparr>))"

definition measurement_div_scalar :: "measurement \<Rightarrow> scalar \<Rightarrow> error + measurement" where
  "measurement_div_scalar x scal =
     (if s_eq (m_value x) (Fin 0) then Inl RuntimeError
      else Inr \<lparr> m_value = s_div (m_value x) scal, m_units = m_units x \<rparr>)"

text \<open>The comparisons with another measurement.\<close>

definition measurement_eq :: "measurement \<Rightarrow> measurement \<Rightarrow> bool" where
  "measurement_eq x other = s_eq (m_value x) (value_as other (m_units x))"

definition measurement_ne :: "measurement \<Rightarrow> measurement \<Rightarrow> bool" where
  "measurement_ne x other = s_ne (m_value x) (value_as other (m_units x))"

definition measurement_gt :: "measurement \<Rightarrow> measurement \<Rightarrow> bool" where
  "measurement_gt x other = s_gt (m_value x) (value_as other (m_units x))"

definition measurement_lt :: "measurement \<Rightarrow> measurement \<Rightarrow> bool" where
  "measurement_lt x other = s_lt (m_value x) (value_as other (m_units x))"

definition measurement_ge :: "measurement \<Rightarrow> measurement \<Rightarrow> bool" where
  "measurement_ge x other =
     (if s_gt (m_value x) (value_as other (m_units x)) then True
      else s_eq (m_value x) (value_as other (m_units x)))"

definition measurement_le :: "measurement \<Rightarrow> measurement \<Rightarrow> bool" where
  "measurement_le x other =
     (if s_lt (m_value x) (value_as other (m_units x)) then True
      else s_eq (m_value x) (value_as other (m_units x)))"

text \<open>The friend functions \<^verbatim>\<open>sin\<close>, \<^verbatim>\<open>cos\<close>, \<^verbatim>\<open>tan\<close>, \<^verbatim>\<open>sinh\<close>, \<^verbatim>\<open>cosh\<close>, \<^verbatim>\<open>tanh\<close>:
  each throws \<^verbatim>\<open>std::runtime_error\<close> when \<^verbatim>\<open>meas.units_ != rad\<close>.\<close>

definition measurement_sin :: "measurement \<Rightarrow> error + measurement" where
  "measurement_sin meas =
     (if unit_ne (m_units meas) rad then Inl RuntimeError
      else Inr \<lparr> m_value = s_sin (m_value meas), m_units = unitless \<rparr>)"

definition measurement_cos :: "measurement \<Rightarrow> error + measurement" where
  "measurement_cos meas =
     (if unit_ne (m_units meas) rad then Inl RuntimeError
      else Inr \<lparr> m_value = s_cos (m_value meas), m_units = unitless \<rparr>)"

definition measurement_tan :: "measurement \<Rightarrow> error + measurement" where
  "measurement_tan meas =
     (if unit_ne (m_units meas) rad then Inl RuntimeError
      else Inr \<lparr> m_value = s_tan (m_value meas), m_units = unitless \<rparr>)"

definition measurement_sinh :: "measurement \<Rightarrow> error + measurement" where
  "measurement_sinh meas =
     (if unit_ne (m_units meas) rad then Inl RuntimeError
      else Inr \<lparr> m_value = s_sinh (m_value meas), m_units = unitless \<rparr>)"

definition measurement_cosh :: "measurement \<Rightarrow> error + measurement" where
  "measurement_cosh meas =
     (if unit_ne (m_units meas) rad then Inl RuntimeError
      else Inr \<lparr> m_value = s_cosh (m_value meas), m_units = unitless \<rparr>)"

definition measurement_tanh :: "measurement \<Rightarrow> error + measurement" where
  "measurement_tanh meas =
     (if unit_ne (m_units meas) rad then Inl RuntimeError
      else Inr \<lparr> m_value = s_tanh (m_value meas), m_units = unitless \<rparr>)"


section \<open>Uncertain quantities: \<^verbatim>\<open>umeasurement\<close>\<close>

record umeasurement =
  um_value :: scalar
  um_uncertainty :: scalar
  um_units :: unit_t

text \<open>The constructor from value, uncertainty and unit throws on a negative uncertainty.\<close>

definition mk_umeasurement :: "scalar \<Rightarrow> scalar \<Rightarrow> unit_t \<Rightarrow> error + umeasurement" where
  "mk_umeasurement val uncertainty units =
     (if s_lt uncertainty (Fin 0) then Inl InvalidArgument
      else Inr \<lparr> um_value = val, um_uncertainty = uncertainty, um_units = units \<rparr>)"

text \<open>\<^verbatim>\<open>operator*\<close> (root sum of squares) and \<^verbatim>\<open>simple_product\<close>, both \<^verbatim>\<open>noexcept\<close>.\<close>

definition umeasurement_mul :: "umeasurement \<Rightarrow> umeasurement \<Rightarrow> error + umeasurement" where
  "umeasurement_mul x other =
     (let tval1 = s_div (um_uncertainty x) (um_value x);
          tval2 = s_div (um_uncertainty other) (um_value other);
          nunc = s_sqrt (s_add (s_powi tval1 2) (s_powi tval2 2));
          nval = s_mul (um_value x) (um_value other)
      in noexcept (case unit_mul (um_units x) (um_units other) of
           Inl e \<Rightarrow> Inl e
         | Inr u \<Rightarrow> mk_umeasurement nval (s_mul (s_fabs nval) nunc) u))"

definition simple_product :: "umeasurement \<Rightarrow> umeasurement \<Rightarrow> error + umeasurement" where
  "simple_product x other =
     (let ntol = s_add (s_div (um_uncertainty x) (s_fabs (um_value x)))
                       (s_div (um_uncertainty other) (s_fabs (um_value other)));
          nval = s_mul (um_value x) (um_value other)
      in noexcept (case unit_mul (um_units x) (um_units other) of
           Inl e \<Rightarrow> Inl e
         | Inr u \<Rightarrow> mk_umeasurement nval (s_mul (s_fabs nval) ntol) u))"

text \<open>\<^verbatim>\<open>simple_subtract\<close>: not \<^verbatim>\<open>noexcept\<close>.\<close>

definition simple_subtract :: "umeasurement \<Rightarrow> umeasurement \<Rightarrow> error + umeasurement" where
  "simple_subtract x other =
     (if unit_base_ne (base (um_units x)) (base (um_units other)) then Inl InvalidArgument
      else
        let cval = convertion_factor (um_units other) (um_units x);
            ntol = s_add (um_uncertainty x) (s_mul (um_uncertainty other) cval)
        in mk_umeasurement (s_sub (um_value x) (s_mul cval (um_value other))) ntol
             (um_units x))"

text \<open>\<^verbatim>\<open>operator==\<close> against a measurement.\<close>

definition umeasurement_eq_measurement :: "umeasurement \<Rightarrow> measurement \<Rightarrow> bool" where
  "umeasurement_eq_measurement x other =
     (if s_eq (um_uncertainty x) (Fin 0)
      then s_eq (um_value x) (value_as other (um_units x))
      else s_ge (value_as other (um_units x)) (s_sub (um_value x) (um_uncertainty x)) \<and>
           s_le (value_as other (um_units x)) (s_add (um_value x) (um_uncertainty x)))"

text \<open>\<^verbatim>\<open>operator==\<close> against another umeasurement: \<^verbatim>\<open>noexcept\<close>, and the result of
  \<^verbatim>\<open>simple_subtract\<close> is compared with \<^verbatim>\<open>measurement(0.0, this->units_)\<close> by the
  operator above.\<close>

definition umeasurement_eq :: "umeasurement \<Rightarrow> umeasurement \<Rightarrow> error + bool" where
  "umeasurement_eq x other =
     noexcept (case simple_subtract x other of
        Inl e \<Rightarrow> Inl e
      | Inr d \<Rightarrow> Inr (umeasurement_eq_measurement d
                        \<lparr> m_value = Fin 0, m_units = um_units x \<rparr>))"


section \<open>Notions used to state the properties\<close>

text \<open>The static array \<^verbatim>\<open>unit_base::bits\<close>: the widths of the seven exponent fields.\<close>

definition bits :: "nat list" where
  "bits = [4, 4, 3, 3, 3, 2, 2]"

text \<open>The exponents of a dimension vector as integers, in the order of \<^verbatim>\<open>bits\<close>.\<close>

definition exponents :: "unit_base \<Rightarrow> int list" where
  "exponents a =
     [sint (metre a), sint (second a), sint (kilogram a), sint (ampere a),
      sint (kelvin a), sint (mole a), sint (candela a)]"

text \<open>Every exponent is a multiple of \<open>n\<close>.\<close>

definition all_divisible :: "unit_base \<Rightarrow> int \<Rightarrow> bool" where
  "all_divisible a n = list_all (\<lambda>e. n dvd e) (exponents a)"

text \<open>Every exponent times \<open>n\<close> lies in the range of its bit-field.\<close>

definition pow_fits :: "unit_base \<Rightarrow> int \<Rightarrow> bool" where
  "pow_fits a n =
     list_all2 (\<lambda>e w. - (2 ^ (w - 1)) \<le> e * n \<and> e * n < 2 ^ (w - 1)) (exponents a) bits"

text \<open>Every truncating quotient of an exponent by \<open>n\<close> lies in the range of its
  bit-field.\<close>

definition root_fits :: "unit_base \<Rightarrow> int \<Rightarrow> bool" where
  "root_fits a n =
     list_all2 (\<lambda>e w. - (2 ^ (w - 1)) \<le> e sdiv n \<and> e sdiv n < 2 ^ (w - 1)) (exponents a) bits"

text \<open>The unit of a product of two quantities in metres: dimension \<open>m\<^sup>2\<close>, default
  prefix.\<close>

definition m_squared :: unit_t where
  "m_squared = \<lparr> base = mk_unit_base 2 0 0 0 0 0 0, prefix = default_prefix \<rparr>"


section \<open>Integer and bit-field lemmas\<close>

lemma smod_eq_0_iff: "n \<noteq> 0 \<Longrightarrow> (k smod n = 0) = (n dvd k)" for k n :: int
  by (auto simp: signed_modulo_int_def sgn_if dvd_eq_mod_eq_0 [symmetric] split: if_splits)

lemma sdiv_mult_cancel: "n dvd k \<Longrightarrow> (k sdiv n) * n = k" for k n :: int
proof (cases "n = 0")
  case True
  then show "n dvd k \<Longrightarrow> ?thesis" by simp
next
  case False
  assume "n dvd k"
  then have "k smod n = 0" using False by (simp add: smod_eq_0_iff)
  then show ?thesis using sdiv_mult_smod_eq [of k n] by simp
qed

lemma mult_sdiv_self: "n \<noteq> 0 \<Longrightarrow> (k * n) sdiv n = k" for k n :: int
  using sdiv_mult_cancel [of n "k * n"] by simp

lemma abs_sdiv: "\<bar>e sdiv n\<bar> = \<bar>e\<bar> div \<bar>n\<bar>" for e n :: int
proof -
  have nn: "0 \<le> \<bar>e\<bar> div \<bar>n\<bar>"
    by (simp add: pos_imp_zdiv_nonneg_iff div_int_pos_iff)
  have "\<bar>e sdiv n\<bar> = \<bar>sgn e\<bar> * \<bar>sgn n\<bar> * (\<bar>e\<bar> div \<bar>n\<bar>)"
    using nn by (simp add: signed_divide_int_def abs_mult)
  also have "\<dots> = \<bar>e\<bar> div \<bar>n\<bar>"
    by (cases "e = 0"; cases "n = 0") (simp_all add: sgn_if)
  finally show ?thesis .
qed

lemma sdiv_bounds:
  fixes e n b :: int
  assumes "- b \<le> e" "e < b" "n \<noteq> 0" "n \<noteq> - 1"
  shows "- b \<le> e sdiv n \<and> e sdiv n < b"
proof (cases "n = 1")
  case True
  with assms show ?thesis by simp
next
  case False
  with assms have n2: "2 \<le> \<bar>n\<bar>" by arith
  from assms have b: "0 < b" and eb: "\<bar>e\<bar> \<le> b" by arith+
  have "\<bar>e\<bar> div \<bar>n\<bar> \<le> \<bar>e\<bar> div 2"
    using n2 by (intro zdiv_mono2) simp_all
  also have "\<dots> \<le> b div 2"
    using eb by (intro zdiv_mono1) simp_all
  also have "\<dots> < b"
    using b by simp
  finally have "\<bar>e sdiv n\<bar> < b"
    by (simp add: abs_sdiv)
  then show ?thesis by arith
qed

lemma field_fits:
  "- (2 ^ (LENGTH('a::len) - 1)) \<le> k \<Longrightarrow> k < 2 ^ (LENGTH('a) - 1)
   \<Longrightarrow> sint (word_of_int k :: 'a word) = k"
  by (simp add: sint_sbintrunc' signed_take_bit_int_eq_self)

lemma field_fits_mult:
  "- (2 ^ (LENGTH('a::len) - 1)) \<le> sint e * n \<Longrightarrow> sint e * n < 2 ^ (LENGTH('a) - 1)
   \<Longrightarrow> sint (e * word_of_int n) = sint e * n"
  for e :: "'a::len word"
proof -
  assume a: "- (2 ^ (LENGTH('a) - 1)) \<le> sint e * n" "sint e * n < 2 ^ (LENGTH('a) - 1)"
  have "e * word_of_int n = word_of_int (sint e * n)" by simp
  then show ?thesis using field_fits [OF a] by simp
qed

lemma field_root_mult:
  "n dvd sint e \<Longrightarrow> word_of_int (sint e sdiv n) * word_of_int n = e"
  for e :: "'a::len word"
proof -
  assume d: "n dvd sint e"
  have "(word_of_int (sint e sdiv n) :: 'a word) * word_of_int n
        = word_of_int (sint e sdiv n * n)"
    by simp
  also have "\<dots> = e"
    using sdiv_mult_cancel [OF d] by simp
  finally show ?thesis .
qed


section \<open>Properties of the dimension algebra\<close>

text \<open>The two comparison operators of \<^verbatim>\<open>unit_base\<close> decide equality of the vectors.\<close>

lemma unit_base_eq_iff: "unit_base_eq a b = (a = b)"
  by (cases a, cases b) (auto simp: unit_base_eq_def)

lemma unit_base_ne_iff: "unit_base_ne a b = (a \<noteq> b)"
  by (cases a, cases b) (auto simp: unit_base_ne_def)

lemma mul_div_cancel: "unit_base_div (unit_base_mul A B) B = A"
  by (cases A) (simp add: unit_base_div_def unit_base_mul_def mk_unit_base_def)

lemma inv_inv: "unit_base_inv (unit_base_inv A) = A"
  by (cases A) (simp add: unit_base_inv_def mk_unit_base_def)

lemma has_valid_root_iff:
  "n \<noteq> 0 \<Longrightarrow> has_valid_root a n = Inr (all_divisible a n)"
  by (auto simp: has_valid_root_def all_divisible_def exponents_def smod_eq_0_iff)

lemma root_invalid_iff:
  "n \<noteq> 0 \<Longrightarrow> (unit_base_root a n = Inl InvalidArgument) = (\<not> all_divisible a n)"
  by (simp add: unit_base_root_def has_valid_root_iff)

lemma root_pow_exact:
  assumes "n \<noteq> 0" and "unit_base_root a n = Inr r"
  shows "unit_base_pow r n = a"
proof -
  from assms have d: "all_divisible a n"
    by (simp add: unit_base_root_def has_valid_root_iff split: if_splits)
  with assms have r: "r = mk_unit_base (sint (metre a) sdiv n) (sint (second a) sdiv n)
                              (sint (kilogram a) sdiv n) (sint (ampere a) sdiv n)
                              (sint (kelvin a) sdiv n) (sint (mole a) sdiv n)
                              (sint (candela a) sdiv n)"
    by (simp add: unit_base_root_def has_valid_root_iff)
  from d show ?thesis
    unfolding r
    by (cases a) (simp add: unit_base_pow_def mk_unit_base_def all_divisible_def exponents_def
         field_root_mult)
qed

lemma pow_root_fits:
  assumes "n \<noteq> 0" and "pow_fits a n"
  shows "unit_base_root (unit_base_pow a n) n = Inr a"
proof -
  from assms(2) have f:
    "sint (metre a * word_of_int n) = sint (metre a) * n"
    "sint (second a * word_of_int n) = sint (second a) * n"
    "sint (kilogram a * word_of_int n) = sint (kilogram a) * n"
    "sint (ampere a * word_of_int n) = sint (ampere a) * n"
    "sint (kelvin a * word_of_int n) = sint (kelvin a) * n"
    "sint (mole a * word_of_int n) = sint (mole a) * n"
    "sint (candela a * word_of_int n) = sint (candela a) * n"
    by (simp_all add: pow_fits_def exponents_def bits_def field_fits_mult)
  from assms(1) show ?thesis
    by (simp add: unit_base_root_def has_valid_root_def unit_base_pow_def mk_unit_base_def f
          smod_eq_0_iff mult_sdiv_self)
qed

lemma root_fits_unless_minus_one:
  assumes "n \<noteq> 0" "n \<noteq> - 1"
  shows "root_fits a n"
proof -
  have m: "- 8 \<le> sint x \<and> sint x < 8" for x :: "4 word"
    using sint_ge [of x] sint_lt [of x] by simp
  have k: "- 4 \<le> sint x \<and> sint x < 4" for x :: "3 word"
    using sint_ge [of x] sint_lt [of x] by simp
  have c: "- 2 \<le> sint x \<and> sint x < 2" for x :: "2 word"
    using sint_ge [of x] sint_lt [of x] by simp
  show ?thesis
    using assms m k c
    by (simp add: root_fits_def exponents_def bits_def sdiv_bounds)
qed

lemma root_returns_when_divisible:
  "n \<noteq> 0 \<Longrightarrow> all_divisible a n \<Longrightarrow>
   unit_base_root a n =
     Inr (mk_unit_base (sint (metre a) sdiv n) (sint (second a) sdiv n)
            (sint (kilogram a) sdiv n) (sint (ampere a) sdiv n)
            (sint (kelvin a) sdiv n) (sint (mole a) sdiv n) (sint (candela a) sdiv n))"
  by (simp add: unit_base_root_def has_valid_root_iff)

lemma root_exponents_exact:
  assumes "n \<noteq> 0" "root_fits a n" "unit_base_root a n = Inr r"
  shows "exponents r = map (\<lambda>e. e sdiv n) (exponents a)"
proof -
  from assms(1,3) have d: "all_divisible a n"
    by (simp add: unit_base_root_def has_valid_root_iff split: if_splits)
  from assms(1,3) d have r: "r = mk_unit_base (sint (metre a) sdiv n) (sint (second a) sdiv n)
            (sint (kilogram a) sdiv n) (sint (ampere a) sdiv n)
            (sint (kelvin a) sdiv n) (sint (mole a) sdiv n) (sint (candela a) sdiv n)"
    by (simp add: root_returns_when_divisible)
  from assms(2) show ?thesis
    unfolding r
    by (simp add: root_fits_def exponents_def bits_def mk_unit_base_def field_fits)
qed

text \<open>
  The root with index \<open>-1\<close> of \<open>(-8,0,0,0,0,0,0)\<close> returns \<open>(-8,0,0,0,0,0,0)\<close>: every
  exponent is a multiple of \<open>-1\<close> and the quotient of the first one is 8, which the
  four-bit field stores as \<open>-8\<close>.  With index 0 the root of \<open>(1,0,0,0,0,0,0)\<close> does not
  throw \<^verbatim>\<open>std::invalid_argument\<close>, although 1 is not a multiple of 0: the remainder by
  zero is taken first.
\<close>

theorem dimension_root_counterexample:
  "all_divisible (mk_unit_base (- 8) 0 0 0 0 0 0) (- 1) \<and>
   unit_base_root (mk_unit_base (- 8) 0 0 0 0 0 0) (- 1) = Inr (mk_unit_base (- 8) 0 0 0 0 0 0) \<and>
   exponents (mk_unit_base (- 8) 0 0 0 0 0 0) = [- 8, 0, 0, 0, 0, 0, 0] \<and>
   (- 8 :: int) sdiv (- 1) = 8 \<and>
   \<not> all_divisible (mk_unit_base 1 0 0 0 0 0 0) 0 \<and>
   unit_base_root (mk_unit_base 1 0 0 0 0 0 0) 0 = Inl Undefined \<and>
   unit_base_root (mk_unit_base 1 0 0 0 0 0 0) 0 \<noteq> Inl InvalidArgument"
  by (simp add: all_divisible_def exponents_def unit_base_root_def has_valid_root_def
        mk_unit_base_def signed_modulo_int_def signed_divide_int_def)

text \<open>
  C8.  For a nonzero root index \<open>n\<close>, \<^verbatim>\<open>unit_base::root\<close> throws
  \<^verbatim>\<open>std::invalid_argument\<close> exactly when some exponent is not a multiple of \<open>n\<close>, and
  otherwise returns the dimension vector built from the quotients of the exponents by
  \<open>n\<close>.  Whenever those quotients fit their bit-fields, which they do for every index
  other than \<open>-1\<close>, the exponents of the result are the exact quotients: none is
  clamped or truncated, and quotient times \<open>n\<close> is the exponent.  In every case
  raising the result to the power \<open>n\<close> gives the operand back.  The root of
  \<open>(1,0,0,0,0,0,0)\<close> with index 2 fails, and the root of \<open>(2,0,0,0,0,0,0)\<close> with index
  2 is \<open>(1,0,0,0,0,0,0)\<close>.
\<close>

theorem dimension_root_validity:
  "(n \<noteq> 0 \<longrightarrow> (unit_base_root a n = Inl InvalidArgument) = (\<not> all_divisible a n)) \<and>
   (n \<noteq> 0 \<and> all_divisible a n \<longrightarrow>
      unit_base_root a n =
        Inr (mk_unit_base (sint (metre a) sdiv n) (sint (second a) sdiv n)
               (sint (kilogram a) sdiv n) (sint (ampere a) sdiv n)
               (sint (kelvin a) sdiv n) (sint (mole a) sdiv n)
               (sint (candela a) sdiv n))) \<and>
   (n \<noteq> 0 \<and> root_fits a n \<longrightarrow>
      (\<forall>r. unit_base_root a n = Inr r \<longrightarrow>
         exponents r = map (\<lambda>e. e sdiv n) (exponents a) \<and>
         list_all (\<lambda>e. (e sdiv n) * n = e) (exponents a))) \<and>
   (n \<noteq> 0 \<and> n \<noteq> - 1 \<longrightarrow> root_fits a n) \<and>
   (n \<noteq> 0 \<longrightarrow> (\<forall>r. unit_base_root a n = Inr r \<longrightarrow> unit_base_pow r n = a)) \<and>
   unit_base_root (mk_unit_base 1 0 0 0 0 0 0) 2 = Inl InvalidArgument \<and>
   unit_base_root (mk_unit_base 2 0 0 0 0 0 0) 2 = Inr (mk_unit_base 1 0 0 0 0 0 0)"
proof (intro conjI impI allI)
  show "(unit_base_root a n = Inl InvalidArgument) = (\<not> all_divisible a n)" if "n \<noteq> 0"
    using that by (rule root_invalid_iff)
  show "unit_base_root a n =
        Inr (mk_unit_base (sint (metre a) sdiv n) (sint (second a) sdiv n)
               (sint (kilogram a) sdiv n) (sint (ampere a) sdiv n)
               (sint (kelvin a) sdiv n) (sint (mole a) sdiv n)
               (sint (candela a) sdiv n))"
    if "n \<noteq> 0 \<and> all_divisible a n"
    using that by (simp add: root_returns_when_divisible)
  show "exponents r = map (\<lambda>e. e sdiv n) (exponents a)"
    if "n \<noteq> 0 \<and> root_fits a n" and "unit_base_root a n = Inr r" for r
    using that by (simp add: root_exponents_exact)
  show "list_all (\<lambda>e. (e sdiv n) * n = e) (exponents a)"
    if "n \<noteq> 0 \<and> root_fits a n" and "unit_base_root a n = Inr r" for r
  proof -
    from that have "all_divisible a n"
      by (simp add: unit_base_root_def has_valid_root_iff split: if_splits)
    then show ?thesis
      by (simp add: all_divisible_def exponents_def sdiv_mult_cancel)
  qed
  show "root_fits a n" if "n \<noteq> 0 \<and> n \<noteq> - 1"
    using that by (simp add: root_fits_unless_minus_one)
  show "unit_base_pow r n = a" if "n \<noteq> 0" and "unit_base_root a n = Inr r" for r
    using that by (rule root_pow_exact)
  show "unit_base_root (mk_unit_base 1 0 0 0 0 0 0) 2 = Inl InvalidArgument"
    by (simp add: unit_base_root_def has_valid_root_def mk_unit_base_def
          signed_modulo_int_def)
  show "unit_base_root (mk_unit_base 2 0 0 0 0 0 0) 2 = Inr (mk_unit_base 1 0 0 0 0 0 0)"
    by (simp add: unit_base_root_def has_valid_root_def mk_unit_base_def
          signed_modulo_int_def signed_divide_int_def)
qed

theorem dimension_root_validity_witness:
  "(2::int) \<noteq> 0 \<and> (2::int) \<noteq> - 1 \<and>
   all_divisible (mk_unit_base 4 (- 2) 0 0 0 0 0) 2 \<and>
   root_fits (mk_unit_base 4 (- 2) 0 0 0 0 0) 2 \<and>
   unit_base_root (mk_unit_base 4 (- 2) 0 0 0 0 0) 2 = Inr (mk_unit_base 2 (- 1) 0 0 0 0 0) \<and>
   unit_base_root (mk_unit_base 4 (- 2) 0 0 0 0 0) 2 \<noteq> Inl InvalidArgument \<and>
   exponents (mk_unit_base 2 (- 1) 0 0 0 0 0)
     = map (\<lambda>e. e sdiv 2) (exponents (mk_unit_base 4 (- 2) 0 0 0 0 0)) \<and>
   unit_base_pow (mk_unit_base 2 (- 1) 0 0 0 0 0) 2 = mk_unit_base 4 (- 2) 0 0 0 0 0"
proof -
  have n: "(2::int) \<noteq> 0" "(2::int) \<noteq> - 1" by simp_all
  have d: "all_divisible (mk_unit_base 4 (- 2) 0 0 0 0 0) 2"
    by (simp add: all_divisible_def exponents_def mk_unit_base_def)
  have r: "unit_base_root (mk_unit_base 4 (- 2) 0 0 0 0 0) 2
           = Inr (mk_unit_base 2 (- 1) 0 0 0 0 0)"
    by (simp add: unit_base_root_def has_valid_root_def mk_unit_base_def
          signed_modulo_int_def signed_divide_int_def)
  note t = dimension_root_validity [of 2 "mk_unit_base 4 (- 2) 0 0 0 0 0"]
  from t n have f: "root_fits (mk_unit_base 4 (- 2) 0 0 0 0 0) 2"
    by blast
  from t n f r have e: "exponents (mk_unit_base 2 (- 1) 0 0 0 0 0)
     = map (\<lambda>e. e sdiv 2) (exponents (mk_unit_base 4 (- 2) 0 0 0 0 0))"
    by blast
  from t n r have p: "unit_base_pow (mk_unit_base 2 (- 1) 0 0 0 0 0) 2
                      = mk_unit_base 4 (- 2) 0 0 0 0 0"
    by blast
  from n d f r e p show ?thesis by simp
qed

text \<open>
  C9.  For all dimension vectors \<open>A\<close> and \<open>B\<close>, \<open>(A * B) / B == A\<close> and
  \<open>A.inv().inv() == A\<close>, also where the bit-fields wrap.  For a nonzero \<open>n\<close> that
  divides every exponent of \<open>A\<close>, \<open>A.pow(n).root(n)\<close> returns \<open>A\<close> provided that
  every exponent times \<open>n\<close> fits its bit-field.
\<close>

theorem dimension_closure:
  "unit_base_eq (unit_base_div (unit_base_mul A B) B) A \<and>
   unit_base_eq (unit_base_inv (unit_base_inv A)) A \<and>
   (n \<noteq> 0 \<and> all_divisible A n \<and> pow_fits A n \<longrightarrow>
      unit_base_root (unit_base_pow A n) n = Inr A)"
  by (simp add: unit_base_eq_iff mul_div_cancel inv_inv pow_root_fits)

theorem dimension_closure_witness:
  "(2::int) \<noteq> 0 \<and> all_divisible (mk_unit_base 2 (- 2) 0 0 0 0 0) 2 \<and>
   pow_fits (mk_unit_base 2 (- 2) 0 0 0 0 0) 2 \<and>
   unit_base_root (unit_base_pow (mk_unit_base 2 (- 2) 0 0 0 0 0) 2) 2
     = Inr (mk_unit_base 2 (- 2) 0 0 0 0 0)"
proof -
  have n: "(2::int) \<noteq> 0" by simp
  have d: "all_divisible (mk_unit_base 2 (- 2) 0 0 0 0 0) 2"
    by (simp add: all_divisible_def exponents_def mk_unit_base_def)
  have f: "pow_fits (mk_unit_base 2 (- 2) 0 0 0 0 0) 2"
    by (simp add: pow_fits_def exponents_def bits_def mk_unit_base_def)
  from dimension_closure [of "mk_unit_base 2 (- 2) 0 0 0 0 0" _ 2] n d f
  show ?thesis by simp
qed

text \<open>
  The square of \<open>m\<^sup>4\<close> has exponent 8, which the four-bit field stores as \<open>-8\<close>; the
  square root then has exponent \<open>-4\<close>.
\<close>

theorem dimension_pow_root_counterexample:
  "(2::int) \<noteq> 0 \<and> all_divisible (mk_unit_base 4 0 0 0 0 0 0) 2 \<and>
   unit_base_root (unit_base_pow (mk_unit_base 4 0 0 0 0 0 0) 2) 2
     = Inr (mk_unit_base (- 4) 0 0 0 0 0 0) \<and>
   \<not> unit_base_eq (mk_unit_base (- 4) 0 0 0 0 0 0) (mk_unit_base 4 0 0 0 0 0 0)"
  by (simp add: all_divisible_def exponents_def unit_base_root_def has_valid_root_def
        unit_base_pow_def unit_base_eq_def mk_unit_base_def signed_modulo_int_def
        signed_divide_int_def)


section \<open>Properties of scalars, prefixes and units\<close>

lemma s_eq_refl_iff: "s_eq x x = (x \<noteq> NaN)"
  by (cases x) simp_all

lemma s_mul_NaN_right: "s_mul x NaN = NaN"
  by (cases x) simp_all

lemma s_cmp_NaN_right:
  "\<not> s_eq x NaN" "\<not> s_lt x NaN" "\<not> s_lt NaN x" "\<not> s_le x NaN" "\<not> s_gt x NaN"
  "\<not> s_ge x NaN" "s_ne x NaN"
  by (cases x; simp add: s_le_def s_gt_def s_ge_def s_ne_def)+

lemma unit_ne_equal_base:
  "unit_base_eq (base u) (base v) \<Longrightarrow> unit_ne u v = unit_prefix_eq (prefix u) (prefix v)"
  by (simp add: unit_ne_def)

lemma unit_eq_equal_base:
  "unit_base_eq (base u) (base v) \<Longrightarrow> unit_eq u v = unit_prefix_eq (prefix u) (prefix v)"
  by (simp add: unit_eq_def unit_base_eq_iff unit_base_ne_iff)

lemma unit_prefix_eq_refl: "unit_prefix_eq p p = (multiplier p \<noteq> NaN)"
  by (simp add: unit_prefix_eq_def s_eq_refl_iff)

text \<open>
  C2.  \<^verbatim>\<open>unit::operator!=\<close> is not the negation of \<^verbatim>\<open>unit::operator==\<close>.  For two
  units with equal dimension vectors it returns whether the prefixes are equal.  So
  every unit whose multiplier is a number (in particular every unit with a positive
  multiplier) is unequal to itself under \<^verbatim>\<open>!=\<close> while \<^verbatim>\<open>==\<close> holds too, and two units
  with equal base and different prefixes are neither \<^verbatim>\<open>!=\<close> nor \<^verbatim>\<open>==\<close>.  The guards
  \<^verbatim>\<open>units != unitless\<close> and \<^verbatim>\<open>units != rad\<close> are decided by this: on a dimensionless
  unit they hold exactly when the prefix equals the default prefix.
\<close>

theorem unit_ne_is_prefix_equality:
  "(unit_base_eq (base u) (base v) \<longrightarrow>
      unit_ne u v = unit_prefix_eq (prefix u) (prefix v)) \<and>
   (multiplier (prefix u) \<noteq> NaN \<longrightarrow> unit_ne u u \<and> unit_eq u u) \<and>
   (unit_base_eq (base u) (base v) \<and> \<not> unit_prefix_eq (prefix u) (prefix v) \<longrightarrow>
      \<not> unit_ne u v \<and> \<not> unit_eq u v) \<and>
   unit_ne u unitless =
     (unit_base_eq (base u) (base unitless) \<longrightarrow> unit_prefix_eq (prefix u) (prefix unitless)) \<and>
   unit_ne u rad =
     (unit_base_eq (base u) (base rad) \<longrightarrow> unit_prefix_eq (prefix u) (prefix rad)) \<and>
   unit_ne unitless unitless \<and> unit_ne rad rad"
proof (intro conjI impI)
  show "unit_ne u v = unit_prefix_eq (prefix u) (prefix v)" if "unit_base_eq (base u) (base v)"
    using that by (rule unit_ne_equal_base)
  show "unit_ne u u" if "multiplier (prefix u) \<noteq> NaN"
    using that by (simp add: unit_ne_def unit_base_eq_iff unit_prefix_eq_refl)
  show "unit_eq u u" if "multiplier (prefix u) \<noteq> NaN"
    using that by (simp add: unit_eq_def unit_base_ne_iff unit_prefix_eq_refl)
  show "\<not> unit_ne u v"
    if "unit_base_eq (base u) (base v) \<and> \<not> unit_prefix_eq (prefix u) (prefix v)"
    using that by (simp add: unit_ne_equal_base)
  show "\<not> unit_eq u v"
    if "unit_base_eq (base u) (base v) \<and> \<not> unit_prefix_eq (prefix u) (prefix v)"
    using that by (simp add: unit_eq_equal_base)
  show "unit_ne u unitless =
     (unit_base_eq (base u) (base unitless) \<longrightarrow> unit_prefix_eq (prefix u) (prefix unitless))"
    by (simp add: unit_ne_def)
  show "unit_ne u rad =
     (unit_base_eq (base u) (base rad) \<longrightarrow> unit_prefix_eq (prefix u) (prefix rad))"
    by (simp add: unit_ne_def)
  show "unit_ne unitless unitless"
    by (simp add: unit_ne_def unit_base_eq_iff unit_prefix_eq_refl unitless_def default_prefix_def)
  show "unit_ne rad rad"
    by (simp add: unit_ne_def unit_base_eq_iff unit_prefix_eq_refl rad_def default_prefix_def)
qed

theorem unit_ne_is_prefix_equality_witness:
  "unit_base_eq (base SI_km) (base SI_m) \<and> multiplier (prefix SI_km) \<noteq> NaN \<and>
   \<not> unit_prefix_eq (prefix SI_km) (prefix SI_m) \<and>
   unit_ne SI_km SI_km \<and> unit_eq SI_km SI_km \<and> \<not> unit_ne SI_km SI_m \<and> \<not> unit_eq SI_km SI_m"
proof -
  have b: "unit_base_eq (base SI_km) (base SI_m)"
    by (simp add: unit_base_eq_def SI_km_def SI_m_def)
  have n: "multiplier (prefix SI_km) \<noteq> NaN"
    by (simp add: SI_km_def)
  have p: "\<not> unit_prefix_eq (prefix SI_km) (prefix SI_m)"
    by (simp add: unit_prefix_eq_def SI_km_def SI_m_def default_prefix_def)
  from unit_ne_is_prefix_equality [of SI_km SI_m] b n p
  show ?thesis by simp
qed

text \<open>
  C1.  The sine of a quantity in metres throws.  The sine of \<open>1.0 rad\<close> throws as well,
  and so do \<^verbatim>\<open>cos\<close>, \<^verbatim>\<open>tan\<close>, \<^verbatim>\<open>sinh\<close>, \<^verbatim>\<open>cosh\<close> and \<^verbatim>\<open>tanh\<close> of it: the guard
  \<^verbatim>\<open>meas.units_ != rad\<close> holds for the radian unit itself.  A dimensionless unit with
  another prefix, which is not the radian unit, passes the guard.  In general the six
  functions return a result for the same operands, namely those whose unit has the
  dimension vector of \<^verbatim>\<open>rad\<close> and a prefix that \<^verbatim>\<open>==\<close> tells apart from the prefix of
  \<^verbatim>\<open>rad\<close>.
\<close>

theorem sin_of_radian_quantity_throws:
  "measurement_sin \<lparr> m_value = Fin 1, m_units = SI_m \<rparr> = Inl RuntimeError \<and>
   measurement_sin \<lparr> m_value = Fin 1, m_units = rad \<rparr> = Inl RuntimeError \<and>
   measurement_cos \<lparr> m_value = Fin 1, m_units = rad \<rparr> = Inl RuntimeError \<and>
   measurement_tan \<lparr> m_value = Fin 1, m_units = rad \<rparr> = Inl RuntimeError \<and>
   measurement_sinh \<lparr> m_value = Fin 1, m_units = rad \<rparr> = Inl RuntimeError \<and>
   measurement_cosh \<lparr> m_value = Fin 1, m_units = rad \<rparr> = Inl RuntimeError \<and>
   measurement_tanh \<lparr> m_value = Fin 1, m_units = rad \<rparr> = Inl RuntimeError \<and>
   measurement_sin \<lparr> m_value = Fin 1,
       m_units = \<lparr> base = mk_unit_base 0 0 0 0 0 0 0,
                   prefix = \<lparr> multiplier = Fin (1 / 1000), symbol = CHR ''m'' \<rparr> \<rparr> \<rparr>
     = Inr \<lparr> m_value = Fin (sin 1), m_units = unitless \<rparr> \<and>
   (\<not> isl (measurement_sin x)) =
     (unit_base_eq (base (m_units x)) (base rad) \<and>
      \<not> unit_prefix_eq (prefix (m_units x)) (prefix rad)) \<and>
   isl (measurement_cos x) = isl (measurement_sin x) \<and>
   isl (measurement_tan x) = isl (measurement_sin x) \<and>
   isl (measurement_sinh x) = isl (measurement_sin x) \<and>
   isl (measurement_cosh x) = isl (measurement_sin x) \<and>
   isl (measurement_tanh x) = isl (measurement_sin x)"
proof -
  have at_inputs:
    "measurement_sin \<lparr> m_value = Fin 1, m_units = SI_m \<rparr> = Inl RuntimeError \<and>
     measurement_sin \<lparr> m_value = Fin 1, m_units = rad \<rparr> = Inl RuntimeError \<and>
     measurement_cos \<lparr> m_value = Fin 1, m_units = rad \<rparr> = Inl RuntimeError \<and>
     measurement_tan \<lparr> m_value = Fin 1, m_units = rad \<rparr> = Inl RuntimeError \<and>
     measurement_sinh \<lparr> m_value = Fin 1, m_units = rad \<rparr> = Inl RuntimeError \<and>
     measurement_cosh \<lparr> m_value = Fin 1, m_units = rad \<rparr> = Inl RuntimeError \<and>
     measurement_tanh \<lparr> m_value = Fin 1, m_units = rad \<rparr> = Inl RuntimeError \<and>
     measurement_sin \<lparr> m_value = Fin 1,
         m_units = \<lparr> base = mk_unit_base 0 0 0 0 0 0 0,
                     prefix = \<lparr> multiplier = Fin (1 / 1000), symbol = CHR ''m'' \<rparr> \<rparr> \<rparr>
       = Inr \<lparr> m_value = Fin (sin 1), m_units = unitless \<rparr>"
    by (simp add: measurement_sin_def measurement_cos_def measurement_tan_def
          measurement_sinh_def measurement_cosh_def measurement_tanh_def
          unit_ne_def unit_base_eq_def unit_prefix_eq_def rad_def SI_m_def
          default_prefix_def mk_unit_base_def)
  have in_general:
    "(\<not> isl (measurement_sin x)) =
       (unit_base_eq (base (m_units x)) (base rad) \<and>
        \<not> unit_prefix_eq (prefix (m_units x)) (prefix rad)) \<and>
     isl (measurement_cos x) = isl (measurement_sin x) \<and>
     isl (measurement_tan x) = isl (measurement_sin x) \<and>
     isl (measurement_sinh x) = isl (measurement_sin x) \<and>
     isl (measurement_cosh x) = isl (measurement_sin x) \<and>
     isl (measurement_tanh x) = isl (measurement_sin x)"
    by (simp add: measurement_sin_def measurement_cos_def measurement_tan_def
          measurement_sinh_def measurement_cosh_def measurement_tanh_def unit_ne_def)
  from at_inputs in_general show ?thesis
    by (simp only: simp_thms)
qed

text \<open>
  C5.  \<^verbatim>\<open>operator/\<close> with a scalar tests the value of the measurement, not the scalar:
  \<open>5 m / 0\<close> returns (an infinite value) and \<open>0 m / 2\<close> throws.  \<^verbatim>\<open>operator/=\<close> tests
  the scalar: it throws on \<open>5 m / 0\<close> and returns \<open>0 m\<close> for \<open>0 m / 2\<close>.  In general
  \<^verbatim>\<open>operator/\<close> throws exactly when the value of the measurement is zero and
  \<^verbatim>\<open>operator/=\<close> exactly when the scalar is zero.
\<close>

theorem scalar_division_tests_the_dividend:
  "measurement_div_scalar \<lparr> m_value = Fin 5, m_units = SI_m \<rparr> (Fin 0)
     = Inr \<lparr> m_value = PInf, m_units = SI_m \<rparr> \<and>
   measurement_div_scalar \<lparr> m_value = Fin 0, m_units = SI_m \<rparr> (Fin 2) = Inl RuntimeError \<and>
   measurement_div_assign_scalar \<lparr> m_value = Fin 5, m_units = SI_m \<rparr> (Fin 0)
     = Inl RuntimeError \<and>
   measurement_div_assign_scalar \<lparr> m_value = Fin 0, m_units = SI_m \<rparr> (Fin 2)
     = Inr \<lparr> m_value = Fin 0, m_units = SI_m \<rparr> \<and>
   (measurement_div_scalar x scal = Inl RuntimeError) = s_eq (m_value x) (Fin 0) \<and>
   (measurement_div_assign_scalar x scal = Inl RuntimeError) = s_eq scal (Fin 0)"
  by (simp add: measurement_div_scalar_def measurement_div_assign_scalar_def)

text \<open>
  C4.  \<^verbatim>\<open>unit_prefix::root\<close> with power 2 of the multiplier 4 returns the multiplier 16,
  where \<^verbatim>\<open>sqrt\<close> returns 2; the symbol is kept.  For every prefix and every power,
  \<^verbatim>\<open>root\<close> returns what \<^verbatim>\<open>pow\<close> returns.
\<close>

theorem prefix_root_raises_to_the_power:
  "unit_prefix_root \<lparr> multiplier = Fin 4, symbol = CHR 0x00 \<rparr> 2
     = Inr \<lparr> multiplier = Fin 16, symbol = CHR 0x00 \<rparr> \<and>
   unit_prefix_sqrt \<lparr> multiplier = Fin 4, symbol = CHR 0x00 \<rparr>
     = Inr \<lparr> multiplier = Fin 2, symbol = CHR 0x00 \<rparr> \<and>
   unit_prefix_root p n = unit_prefix_pow p n"
proof -
  have "sqrt 4 = (2::real)"
    using real_sqrt_abs [of 2] by simp
  then show ?thesis
    by (simp add: unit_prefix_root_def unit_prefix_pow_def unit_prefix_sqrt_def
          mk_unit_prefix_def noexcept_def s_le_def)
qed

section \<open>Properties of plain quantities\<close>

lemma value_as_other_base:
  "\<not> unit_base_eq (base (m_units x)) (base u) \<Longrightarrow> value_as x u = NaN"
  by (simp add: value_as_def unit_eq_def unit_base_eq_iff unit_base_ne_iff convert_def
        convertion_factor_def s_mul_NaN_right)

text \<open>
  The sum of \<open>0.0\<close> (unitless) and \<open>5.0 km\<close> throws \<^verbatim>\<open>std::invalid_argument\<close>, with
  \<^verbatim>\<open>operator+\<close> and with \<^verbatim>\<open>operator+=\<close>: the dimension vectors differ.
\<close>

theorem add_checks_dimensions_first_counterexample:
  "measurement_add \<lparr> m_value = Fin 0, m_units = unitless \<rparr> \<lparr> m_value = Fin 5, m_units = SI_km \<rparr>
     = Inl InvalidArgument \<and>
   measurement_add_assign \<lparr> m_value = Fin 0, m_units = unitless \<rparr>
       \<lparr> m_value = Fin 5, m_units = SI_km \<rparr>
     = Inl InvalidArgument"
  by (simp add: measurement_add_def measurement_add_assign_def unit_base_ne_def unitless_def
        SI_km_def mk_unit_base_def)

text \<open>
  C3.  Addition and subtraction compare the dimension vectors first: with different
  vectors \<^verbatim>\<open>operator+\<close>, \<^verbatim>\<open>operator-\<close>, \<^verbatim>\<open>operator+=\<close> and \<^verbatim>\<open>operator-=\<close> all throw
  \<^verbatim>\<open>std::invalid_argument\<close>, whatever the left unit is.  With equal vectors
  \<^verbatim>\<open>operator+\<close> and \<^verbatim>\<open>operator-\<close> convert the right operand into the unit of the left
  one and keep that unit, also when the left operand is unitless:
  \<open>0 m + 5 km\<close> is \<open>5000 m\<close>, and \<open>0\<close> (unitless) plus \<open>5\<close> with the bare prefix
  kilo is \<open>5000\<close> (unitless).
\<close>

theorem add_checks_dimensions_first:
  "(unit_base_ne (base (m_units x)) (base (m_units y)) \<longrightarrow>
      measurement_add x y = Inl InvalidArgument \<and>
      measurement_sub x y = Inl InvalidArgument \<and>
      measurement_add_assign x y = Inl InvalidArgument \<and>
      measurement_sub_assign x y = Inl InvalidArgument) \<and>
   (\<not> unit_base_ne (base (m_units x)) (base (m_units y)) \<longrightarrow>
      measurement_add x y =
        Inr \<lparr> m_value = s_add (m_value x) (value_as y (m_units x)), m_units = m_units x \<rparr> \<and>
      measurement_sub x y =
        Inr \<lparr> m_value = s_sub (m_value x) (value_as y (m_units x)), m_units = m_units x \<rparr>) \<and>
   measurement_add \<lparr> m_value = Fin 0, m_units = SI_m \<rparr> \<lparr> m_value = Fin 5, m_units = SI_km \<rparr>
     = Inr \<lparr> m_value = Fin 5000, m_units = SI_m \<rparr> \<and>
   measurement_add \<lparr> m_value = Fin 0, m_units = unitless \<rparr>
       \<lparr> m_value = Fin 5,
         m_units = \<lparr> base = mk_unit_base 0 0 0 0 0 0 0,
                     prefix = \<lparr> multiplier = Fin 1000, symbol = CHR ''k'' \<rparr> \<rparr> \<rparr>
     = Inr \<lparr> m_value = Fin 5000, m_units = unitless \<rparr>"
  by (simp add: measurement_add_def measurement_sub_def measurement_add_assign_def
        measurement_sub_assign_def value_as_def unit_eq_def unit_base_ne_def unit_prefix_eq_def
        convert_def convertion_factor_def unit_base_eq_def unitless_def SI_m_def SI_km_def
        default_prefix_def mk_unit_base_def)

theorem add_checks_dimensions_first_witness:
  "unit_base_ne (base (m_units \<lparr> m_value = Fin 1, m_units = SI_m \<rparr>))
                (base (m_units \<lparr> m_value = Fin 1, m_units = SI_s \<rparr>)) \<and>
   measurement_add \<lparr> m_value = Fin 1, m_units = SI_m \<rparr> \<lparr> m_value = Fin 1, m_units = SI_s \<rparr>
     = Inl InvalidArgument \<and>
   \<not> unit_base_ne (base (m_units \<lparr> m_value = Fin 2, m_units = SI_km \<rparr>))
                  (base (m_units \<lparr> m_value = Fin 500, m_units = SI_m \<rparr>)) \<and>
   measurement_add \<lparr> m_value = Fin 2, m_units = SI_km \<rparr> \<lparr> m_value = Fin 500, m_units = SI_m \<rparr>
     = Inr \<lparr> m_value = Fin (5 / 2), m_units = SI_km \<rparr>"
proof -
  have d: "unit_base_ne (base (m_units \<lparr> m_value = Fin 1, m_units = SI_m \<rparr>))
                        (base (m_units \<lparr> m_value = Fin 1, m_units = SI_s \<rparr>))"
    by (simp add: unit_base_ne_def SI_m_def SI_s_def mk_unit_base_def)
  have e: "\<not> unit_base_ne (base (m_units \<lparr> m_value = Fin 2, m_units = SI_km \<rparr>))
                          (base (m_units \<lparr> m_value = Fin 500, m_units = SI_m \<rparr>))"
    by (simp add: unit_base_ne_def SI_m_def SI_km_def)
  have v: "value_as \<lparr> m_value = Fin 500, m_units = SI_m \<rparr> SI_km = Fin (1 / 2)"
    by (simp add: value_as_def unit_eq_def unit_base_ne_def unit_prefix_eq_def convert_def
          convertion_factor_def unit_base_eq_def SI_m_def SI_km_def default_prefix_def)
  from add_checks_dimensions_first
         [of "\<lparr> m_value = Fin 1, m_units = SI_m \<rparr>" "\<lparr> m_value = Fin 1, m_units = SI_s \<rparr>"]
       add_checks_dimensions_first
         [of "\<lparr> m_value = Fin 2, m_units = SI_km \<rparr>" "\<lparr> m_value = Fin 500, m_units = SI_m \<rparr>"]
       d e v
  show ?thesis by simp
qed

text \<open>
  C10.  \<^verbatim>\<open>convertion_factor\<close> returns a scalar for every pair of units and has no
  failure outcome.  With equal dimension vectors the scalar is the quotient of the
  multiplier of the source prefix by that of the target prefix; otherwise it is \<open>NaN\<close>,
  and then \<^verbatim>\<open>convert\<close> and \<^verbatim>\<open>value_as\<close> return \<open>NaN\<close>, the comparisons \<^verbatim>\<open>==\<close>,
  \<^verbatim>\<open><\<close>, \<^verbatim>\<open>>\<close>, \<^verbatim>\<open><=\<close>, \<^verbatim>\<open>>=\<close> of measurements are false and \<^verbatim>\<open>!=\<close> is true.
\<close>

theorem convertion_factor_never_throws:
  "(unit_base_eq (base u) (base t) \<longrightarrow>
      convertion_factor u t = s_div (multiplier (prefix u)) (multiplier (prefix t))) \<and>
   (\<not> unit_base_eq (base u) (base t) \<longrightarrow>
      convertion_factor u t = NaN \<and>
      convert u v t = NaN \<and>
      value_as \<lparr> m_value = v, m_units = u \<rparr> t = NaN \<and>
      \<not> measurement_eq \<lparr> m_value = w, m_units = t \<rparr> \<lparr> m_value = v, m_units = u \<rparr> \<and>
      \<not> measurement_lt \<lparr> m_value = w, m_units = t \<rparr> \<lparr> m_value = v, m_units = u \<rparr> \<and>
      \<not> measurement_gt \<lparr> m_value = w, m_units = t \<rparr> \<lparr> m_value = v, m_units = u \<rparr> \<and>
      \<not> measurement_le \<lparr> m_value = w, m_units = t \<rparr> \<lparr> m_value = v, m_units = u \<rparr> \<and>
      \<not> measurement_ge \<lparr> m_value = w, m_units = t \<rparr> \<lparr> m_value = v, m_units = u \<rparr> \<and>
      measurement_ne \<lparr> m_value = w, m_units = t \<rparr> \<lparr> m_value = v, m_units = u \<rparr>)"
proof (intro conjI impI)
  show "convertion_factor u t = s_div (multiplier (prefix u)) (multiplier (prefix t))"
    if "unit_base_eq (base u) (base t)"
    using that by (simp add: convertion_factor_def)
next
  assume n: "\<not> unit_base_eq (base u) (base t)"
  then show f: "convertion_factor u t = NaN"
    by (simp add: convertion_factor_def)
  then show "convert u v t = NaN"
    by (simp add: convert_def s_mul_NaN_right)
  from n have va: "value_as \<lparr> m_value = v, m_units = u \<rparr> t = NaN"
    by (simp add: value_as_other_base)
  then show "value_as \<lparr> m_value = v, m_units = u \<rparr> t = NaN" .
  from va show "\<not> measurement_eq \<lparr> m_value = w, m_units = t \<rparr> \<lparr> m_value = v, m_units = u \<rparr>"
    by (simp add: measurement_eq_def s_cmp_NaN_right)
  from va show "\<not> measurement_lt \<lparr> m_value = w, m_units = t \<rparr> \<lparr> m_value = v, m_units = u \<rparr>"
    by (simp add: measurement_lt_def s_cmp_NaN_right)
  from va show "\<not> measurement_gt \<lparr> m_value = w, m_units = t \<rparr> \<lparr> m_value = v, m_units = u \<rparr>"
    by (simp add: measurement_gt_def s_cmp_NaN_right)
  from va show "\<not> measurement_le \<lparr> m_value = w, m_units = t \<rparr> \<lparr> m_value = v, m_units = u \<rparr>"
    by (simp add: measurement_le_def s_cmp_NaN_right)
  from va show "\<not> measurement_ge \<lparr> m_value = w, m_units = t \<rparr> \<lparr> m_value = v, m_units = u \<rparr>"
    by (simp add: measurement_ge_def s_cmp_NaN_right)
  from va show "measurement_ne \<lparr> m_value = w, m_units = t \<rparr> \<lparr> m_value = v, m_units = u \<rparr>"
    by (simp add: measurement_ne_def s_cmp_NaN_right)
qed

theorem convertion_factor_never_throws_witness:
  "unit_base_eq (base SI_km) (base SI_m) \<and> convertion_factor SI_km SI_m = Fin 1000 \<and>
   \<not> unit_base_eq (base SI_m) (base SI_s) \<and> convertion_factor SI_m SI_s = NaN \<and>
   convert SI_m (Fin 3) SI_s = NaN \<and>
   \<not> measurement_eq \<lparr> m_value = Fin 3, m_units = SI_s \<rparr> \<lparr> m_value = Fin 3, m_units = SI_m \<rparr>"
proof -
  have a: "unit_base_eq (base SI_km) (base SI_m)"
    by (simp add: unit_base_eq_def SI_km_def SI_m_def)
  have b: "\<not> unit_base_eq (base SI_m) (base SI_s)"
    by (simp add: unit_base_eq_def SI_m_def SI_s_def mk_unit_base_def)
  have c: "s_div (multiplier (prefix SI_km)) (multiplier (prefix SI_m)) = Fin 1000"
    by (simp add: SI_km_def SI_m_def default_prefix_def)
  from convertion_factor_never_throws [of SI_km SI_m]
       convertion_factor_never_throws [of SI_m SI_s "Fin 3" "Fin 3"] a b c
  show ?thesis by simp
qed


section \<open>Properties of uncertain quantities\<close>

lemma unit_mul_m_m: "unit_mul SI_m SI_m = Inr m_squared"
  by (simp add: unit_mul_def unit_prefix_mul_def mk_unit_prefix_def noexcept_def s_le_def
        unit_base_mul_def SI_m_def m_squared_def default_prefix_def mk_unit_base_def)

lemma twenty_sqrt: "20 * sqrt (1 / 80) = sqrt 5"
proof -
  have "20 * sqrt (1 / 80) = sqrt (20\<^sup>2) * sqrt (1 / 80)"
    by simp
  also have "\<dots> = sqrt (20\<^sup>2 * (1 / 80))"
    by (simp only: real_sqrt_mult)
  also have "\<dots> = sqrt 5"
    by simp
  finally show ?thesis .
qed

lemma sqrt5_bounds: "2236 / 1000 < sqrt 5" "sqrt 5 < 2237 / 1000"
proof -
  have "sqrt ((2236 / 1000)\<^sup>2) < sqrt 5"
    by (subst real_sqrt_less_iff) (simp add: power2_eq_square)
  then show "2236 / 1000 < sqrt 5" by simp
  have "sqrt 5 < sqrt ((2237 / 1000)\<^sup>2)"
    by (subst real_sqrt_less_iff) (simp add: power2_eq_square)
  then show "sqrt 5 < 2237 / 1000" by simp
qed

lemma rss_example: "20 * sqrt ((1 / 10)\<^sup>2 + (1 / 20)\<^sup>2) = sqrt 5"
proof -
  have "(1 / 10 :: real)\<^sup>2 + (1 / 20)\<^sup>2 = 1 / 80"
    by (simp add: power2_eq_square)
  then show ?thesis
    by (simp only: twenty_sqrt)
qed

lemma mul_example:
  "umeasurement_mul \<lparr> um_value = Fin 10, um_uncertainty = Fin 1, um_units = SI_m \<rparr>
                    \<lparr> um_value = Fin 2, um_uncertainty = Fin (1 / 10), um_units = SI_m \<rparr>
   = Inr \<lparr> um_value = Fin 20, um_uncertainty = Fin (sqrt 5), um_units = m_squared \<rparr>"
proof -
  have "\<not> (1 / 10 :: real)\<^sup>2 + (1 / 20)\<^sup>2 < 0"
    by (simp add: power2_eq_square)
  then show ?thesis
    by (simp add: umeasurement_mul_def Let_def unit_mul_m_m noexcept_def mk_umeasurement_def
          rss_example)
qed

lemma simple_example:
  "simple_product \<lparr> um_value = Fin 10, um_uncertainty = Fin 1, um_units = SI_m \<rparr>
                  \<lparr> um_value = Fin 2, um_uncertainty = Fin (1 / 10), um_units = SI_m \<rparr>
   = Inr \<lparr> um_value = Fin 20, um_uncertainty = Fin 3, um_units = m_squared \<rparr>"
  by (simp add: simple_product_def Let_def unit_mul_m_m noexcept_def mk_umeasurement_def)


text \<open>
  C7.  For \<open>(10 \<plusminus> 1) m\<close> times \<open>(2 \<plusminus> 0.1) m\<close>, \<^verbatim>\<open>operator*\<close> returns the value 20 with
  the uncertainty \<open>|20| * sqrt ((1/10)\<^sup>2 + (0.1/2)\<^sup>2)\<close>, which is \<open>sqrt 5\<close>, about
  2.236, and \<^verbatim>\<open>simple_product\<close> returns the value 20 with the uncertainty
  \<open>|20| * (1/10 + 0.1/2) = 3\<close>; the two uncertainties differ.
\<close>

theorem product_uncertainties:
  "umeasurement_mul \<lparr> um_value = Fin 10, um_uncertainty = Fin 1, um_units = SI_m \<rparr>
                    \<lparr> um_value = Fin 2, um_uncertainty = Fin (1 / 10), um_units = SI_m \<rparr>
     = Inr \<lparr> um_value = Fin 20, um_uncertainty = Fin (sqrt 5), um_units = m_squared \<rparr> \<and>
   sqrt 5 = \<bar>20\<bar> * sqrt ((1 / 10)\<^sup>2 + ((1 / 10) / 2)\<^sup>2) \<and>
   2236 / 1000 < sqrt 5 \<and> sqrt 5 < 2237 / 1000 \<and>
   simple_product \<lparr> um_value = Fin 10, um_uncertainty = Fin 1, um_units = SI_m \<rparr>
                  \<lparr> um_value = Fin 2, um_uncertainty = Fin (1 / 10), um_units = SI_m \<rparr>
     = Inr \<lparr> um_value = Fin 20, um_uncertainty = Fin 3, um_units = m_squared \<rparr> \<and>
   (3::real) = \<bar>20\<bar> * (1 / 10 + (1 / 10) / 2) \<and>
   Fin (sqrt 5) \<noteq> Fin 3"
proof -
  have "sqrt 5 \<noteq> 3"
    using sqrt5_bounds(2) by simp
  then show ?thesis
    using rss_example sqrt5_bounds by (simp add: mul_example simple_example)
qed

text \<open>
  The linear uncertainty of that product is 3 and not 2.1, and the statistical one is
  above 2.2.
\<close>

theorem product_uncertainties_counterexample:
  "simple_product \<lparr> um_value = Fin 10, um_uncertainty = Fin 1, um_units = SI_m \<rparr>
                  \<lparr> um_value = Fin 2, um_uncertainty = Fin (1 / 10), um_units = SI_m \<rparr>
     = Inr \<lparr> um_value = Fin 20, um_uncertainty = Fin 3, um_units = m_squared \<rparr> \<and>
   Fin 3 \<noteq> Fin (21 / 10) \<and>
   umeasurement_mul \<lparr> um_value = Fin 10, um_uncertainty = Fin 1, um_units = SI_m \<rparr>
                    \<lparr> um_value = Fin 2, um_uncertainty = Fin (1 / 10), um_units = SI_m \<rparr>
     = Inr \<lparr> um_value = Fin 20, um_uncertainty = Fin (sqrt 5), um_units = m_squared \<rparr> \<and>
   \<not> sqrt 5 < 22 / 10"
proof -
  have "\<not> sqrt 5 < 22 / 10"
    using sqrt5_bounds(1) by simp
  then show ?thesis
    by (simp add: mul_example simple_example)
qed

text \<open>
  C6.  Equality of two uncertain quantities with finite values, equal dimension
  vectors, positive multipliers and uncertainties that are not negative holds exactly
  when the difference of the values, the second one converted by the factor
  \<open>c = m2 / m1\<close>, is at most the combined linear uncertainty:
  \<open>|v1 - c * v2| \<le> u1 + c * u2\<close>.  This is an interval test; the values have to
  coincide only when that uncertainty is zero.  With different dimension vectors the
  comparison ends the program, since \<^verbatim>\<open>simple_subtract\<close> throws inside a \<^verbatim>\<open>noexcept\<close>
  operator.
\<close>

theorem umeasurement_eq_is_interval_test:
  "(unit_base_eq b1 b2 \<and> 0 < m1 \<and> 0 < m2 \<and> 0 \<le> u1 \<and> 0 \<le> u2 \<longrightarrow>
      umeasurement_eq
        \<lparr> um_value = Fin v1, um_uncertainty = Fin u1,
          um_units = \<lparr> base = b1, prefix = \<lparr> multiplier = Fin m1, symbol = c1 \<rparr> \<rparr> \<rparr>
        \<lparr> um_value = Fin v2, um_uncertainty = Fin u2,
          um_units = \<lparr> base = b2, prefix = \<lparr> multiplier = Fin m2, symbol = c2 \<rparr> \<rparr> \<rparr>
      = Inr (\<bar>v1 - (m2 / m1) * v2\<bar> \<le> u1 + u2 * (m2 / m1))) \<and>
   (unit_base_ne (base (um_units x)) (base (um_units y)) \<longrightarrow>
      umeasurement_eq x y = Inl Terminate)"
proof (intro conjI impI)
  assume h: "unit_base_eq b1 b2 \<and> 0 < m1 \<and> 0 < m2 \<and> 0 \<le> u1 \<and> 0 \<le> u2"
  then have b: "b1 = b2" and m1: "0 < m1" and m2: "0 < m2" and u1: "0 \<le> u1" and u2: "0 \<le> u2"
    by (simp_all add: unit_base_eq_iff)
  let ?c = "m2 / m1"
  let ?U = "\<lparr> base = b1, prefix = \<lparr> multiplier = Fin m1, symbol = c1 \<rparr> \<rparr>"
  from m1 m2 have c: "0 < ?c" by simp
  from u2 c have "0 \<le> u2 * ?c"
    by (intro mult_nonneg_nonneg) simp_all
  with u1 have t: "0 \<le> u1 + u2 * ?c"
    by (rule add_nonneg_nonneg)
  have sub: "simple_subtract
        \<lparr> um_value = Fin v1, um_uncertainty = Fin u1, um_units = ?U \<rparr>
        \<lparr> um_value = Fin v2, um_uncertainty = Fin u2,
          um_units = \<lparr> base = b2, prefix = \<lparr> multiplier = Fin m2, symbol = c2 \<rparr> \<rparr> \<rparr>
      = Inr \<lparr> um_value = Fin (v1 - ?c * v2), um_uncertainty = Fin (u1 + u2 * ?c),
              um_units = ?U \<rparr>"
    using m1 t b
    by (simp add: simple_subtract_def Let_def unit_base_ne_iff unit_base_eq_iff
          convertion_factor_def mk_umeasurement_def s_sub_def)
  have z: "value_as \<lparr> m_value = Fin 0, m_units = ?U \<rparr> ?U = Fin 0"
    by (simp add: value_as_def unit_eq_def unit_base_ne_iff unit_prefix_eq_def)
  have "umeasurement_eq_measurement
          \<lparr> um_value = Fin (v1 - ?c * v2), um_uncertainty = Fin (u1 + u2 * ?c), um_units = ?U \<rparr>
          \<lparr> m_value = Fin 0, m_units = ?U \<rparr>
        = (\<bar>v1 - ?c * v2\<bar> \<le> u1 + u2 * ?c)"
    using t
    by (auto simp add: umeasurement_eq_measurement_def z s_ge_def s_le_def s_sub_def)
  with sub show "umeasurement_eq
        \<lparr> um_value = Fin v1, um_uncertainty = Fin u1, um_units = ?U \<rparr>
        \<lparr> um_value = Fin v2, um_uncertainty = Fin u2,
          um_units = \<lparr> base = b2, prefix = \<lparr> multiplier = Fin m2, symbol = c2 \<rparr> \<rparr> \<rparr>
      = Inr (\<bar>v1 - ?c * v2\<bar> \<le> u1 + u2 * ?c)"
    by (simp add: umeasurement_eq_def noexcept_def)
next
  assume "unit_base_ne (base (um_units x)) (base (um_units y))"
  then show "umeasurement_eq x y = Inl Terminate"
    by (simp add: umeasurement_eq_def simple_subtract_def noexcept_def)
qed


theorem umeasurement_eq_is_interval_test_witness:
  "unit_base_eq (mk_unit_base 1 0 0 0 0 0 0) (mk_unit_base 1 0 0 0 0 0 0) \<and>
   (0::real) < 1 \<and> (0::real) < 1000 \<and> (0::real) \<le> 1 \<and> (0::real) \<le> 1 / 1000 \<and>
   umeasurement_eq
     \<lparr> um_value = Fin 10, um_uncertainty = Fin 1,
       um_units = \<lparr> base = mk_unit_base 1 0 0 0 0 0 0,
                    prefix = \<lparr> multiplier = Fin 1, symbol = CHR 0x00 \<rparr> \<rparr> \<rparr>
     \<lparr> um_value = Fin (21 / 2000), um_uncertainty = Fin (1 / 1000),
       um_units = \<lparr> base = mk_unit_base 1 0 0 0 0 0 0,
                    prefix = \<lparr> multiplier = Fin 1000, symbol = CHR ''k'' \<rparr> \<rparr> \<rparr>
     = Inr True \<and>
   unit_base_ne (base (um_units \<lparr> um_value = Fin 1, um_uncertainty = Fin 0, um_units = SI_m \<rparr>))
                (base (um_units \<lparr> um_value = Fin 1, um_uncertainty = Fin 0, um_units = SI_s \<rparr>)) \<and>
   umeasurement_eq \<lparr> um_value = Fin 1, um_uncertainty = Fin 0, um_units = SI_m \<rparr>
                   \<lparr> um_value = Fin 1, um_uncertainty = Fin 0, um_units = SI_s \<rparr>
     = Inl Terminate"
proof -
  have b: "unit_base_eq (mk_unit_base 1 0 0 0 0 0 0) (mk_unit_base 1 0 0 0 0 0 0)"
    by (simp add: unit_base_eq_def)
  have d: "unit_base_ne
             (base (um_units \<lparr> um_value = Fin 1, um_uncertainty = Fin 0, um_units = SI_m \<rparr>))
             (base (um_units \<lparr> um_value = Fin 1, um_uncertainty = Fin 0, um_units = SI_s \<rparr>))"
    by (simp add: unit_base_ne_def SI_m_def SI_s_def mk_unit_base_def)
  from umeasurement_eq_is_interval_test
         [where ?b1.0 = "mk_unit_base 1 0 0 0 0 0 0" and ?b2.0 = "mk_unit_base 1 0 0 0 0 0 0"
            and ?m1.0 = 1 and ?m2.0 = 1000 and ?u1.0 = 1 and ?u2.0 = "1 / 1000"
            and ?v1.0 = 10 and ?v2.0 = "21 / 2000" and ?c1.0 = "CHR 0x00" and ?c2.0 = "CHR ''k''"
            and x = "\<lparr> um_value = Fin 1, um_uncertainty = Fin 0, um_units = SI_m \<rparr>"
            and y = "\<lparr> um_value = Fin 1, um_uncertainty = Fin 0, um_units = SI_s \<rparr>"]
       b d
  show ?thesis by simp
qed

text \<open>
  \<open>(10 \<plusminus> 1) m\<close> and \<open>(10.5 \<plusminus> 1) m\<close> compare equal, although \<^verbatim>\<open>simple_subtract\<close>
  gives the value \<open>-0.5\<close> and the two values differ.
\<close>

theorem umeasurement_eq_counterexample:
  "umeasurement_eq \<lparr> um_value = Fin 10, um_uncertainty = Fin 1, um_units = SI_m \<rparr>
                   \<lparr> um_value = Fin (21 / 2), um_uncertainty = Fin 1, um_units = SI_m \<rparr>
     = Inr True \<and>
   simple_subtract \<lparr> um_value = Fin 10, um_uncertainty = Fin 1, um_units = SI_m \<rparr>
                   \<lparr> um_value = Fin (21 / 2), um_uncertainty = Fin 1, um_units = SI_m \<rparr>
     = Inr \<lparr> um_value = Fin (- 1 / 2), um_uncertainty = Fin 2, um_units = SI_m \<rparr> \<and>
   \<not> s_eq (Fin (- 1 / 2)) (Fin 0) \<and> \<not> s_eq (Fin 10) (Fin (21 / 2))"
proof -
  have sub: "simple_subtract \<lparr> um_value = Fin 10, um_uncertainty = Fin 1, um_units = SI_m \<rparr>
                   \<lparr> um_value = Fin (21 / 2), um_uncertainty = Fin 1, um_units = SI_m \<rparr>
     = Inr \<lparr> um_value = Fin (- 1 / 2), um_uncertainty = Fin 2, um_units = SI_m \<rparr>"
    by (simp add: simple_subtract_def Let_def unit_base_ne_iff unit_base_eq_iff
          convertion_factor_def mk_umeasurement_def s_sub_def SI_m_def default_prefix_def)
  have "umeasurement_eq_measurement
          \<lparr> um_value = Fin (- 1 / 2), um_uncertainty = Fin 2, um_units = SI_m \<rparr>
          \<lparr> m_value = Fin 0, m_units = SI_m \<rparr>"
    by (simp add: umeasurement_eq_measurement_def value_as_def unit_eq_def unit_base_ne_iff
          unit_prefix_eq_def s_ge_def s_le_def s_sub_def SI_m_def default_prefix_def)
  with sub show ?thesis
    by (simp add: umeasurement_eq_def noexcept_def)
qed


end
